theory Spec2Isabelle
  imports Complex_Main
begin

section \<open>Data model of the ARSpace class\<close>

text \<open>
  The program is one JavaScript class, \<^verbatim>\<open>ARSpace\<close>, in two variants (a procedural
  robot model, and a GLB asset with an icosahedron fallback) whose session, hit-test and
  placement code is the same. Its fields are a record; every method is a function from
  the state before the call to the state after it.

  Numbers are JavaScript doubles. The modelled code only copies them (the one addition,
  the per-frame rotation, is a parameter of \<open>render\<close>), so they are reals here.
\<close>

type_synonym vec3 = "real \<times> real \<times> real"
type_synonym quat = "real \<times> real \<times> real \<times> real"

text \<open>
  A three.js \<^verbatim>\<open>Object3D\<close>. \<open>oid\<close> is the identity of the object (the scene graph
  compares by identity); \<open>rotationSpeed\<close> and \<open>isPlaced\<close> are its \<^verbatim>\<open>userData\<close>
  entries, \<open>None\<close> being an absent entry. Geometry, material, scale and shadow flags are
  never read by the modelled methods and are left out.
\<close>

record Object3D =
  oid :: nat
  visible :: bool
  position :: vec3
  quaternion :: quat
  rotationSpeed :: "real option"
  isPlaced :: bool

text \<open>
  An \<^verbatim>\<open>XRPose\<close>, by its \<^verbatim>\<open>transform.matrix\<close>. The program hands the matrix to
  \<^verbatim>\<open>Vector3.setFromMatrixPosition\<close> and \<^verbatim>\<open>Quaternion.setFromRotationMatrix\<close>, which
  read \<^verbatim>\<open>m.elements\<close>, the array of a three.js \<^verbatim>\<open>Matrix4\<close>. WebXR's matrix is a
  \<^verbatim>\<open>Float32Array\<close>, which has no \<^verbatim>\<open>elements\<close>: reading an index of it throws a
  \<^verbatim>\<open>TypeError\<close>. A matrix is therefore either \<open>Float32Array\<close>, or an object with
  \<^verbatim>\<open>elements\<close>, given by the position and the rotation that the two methods read
  from them.
\<close>

datatype TransformMatrix = Float32Array | Matrix4 vec3 quat

record XRPose =
  matrix :: TransformMatrix

text \<open>
  An \<^verbatim>\<open>XRHitTestResult\<close> is what its \<^verbatim>\<open>getPose(referenceSpace)\<close> returns: a pose
  or null. An \<^verbatim>\<open>XRFrame\<close> has its session and the answer of
  \<^verbatim>\<open>frame.getHitTestResults(source)\<close> at the moment \<open>handleHitTest\<close> calls it
  (each invocation calls it at most once): \<open>None\<close> when the platform throws, as it does
  for a frame that is no longer active.
\<close>

type_synonym XRHitTestResult = "XRPose option"

record XRFrame =
  frameSession :: nat
  getHitTestResults :: "XRHitTestResult list option"

datatype ModelType = glb | icosahedron

text \<open>
  The DOM elements the session and hit-test methods write to: the classes they add to
  and remove from \<^verbatim>\<open>container\<close> and the buttons, and the instruction text. The status
  banner (\<^verbatim>\<open>showStatus\<close>, \<^verbatim>\<open>hideStatus\<close>, \<^verbatim>\<open>showSuccessStatus\<close> and their timers)
  and the console are not part of the state.
\<close>

record UI =
  ar_active :: bool
  surface_detected :: bool
  arButton_hidden :: bool
  stopArButton_hidden :: bool
  reticleElement_hidden :: bool
  fallbackMessage_hidden :: bool
  instructionText :: string

text \<open>
  The fields of \<^verbatim>\<open>ARSpace\<close>. \<open>scene\<close> is \<^verbatim>\<open>scene.children\<close>: the program reads the
  scene graph only for membership (\<^verbatim>\<open>includes\<close>, \<^verbatim>\<open>remove\<close>), so it lists the
  identities of the children in order, and the fields of each object are kept at the one
  field through which the program reaches it (\<open>model\<close>, \<open>placedModels\<close>, \<open>reticle\<close>).
  \<open>hitTestSource\<close> and \<open>arSession\<close> hold opaque platform handles, named by numbers.
  \<^verbatim>\<open>this.reticle\<close> is null only between the constructor and \<^verbatim>\<open>createReticle\<close>, before
  any handler is registered, so it is not optional here.

  Three more fields are the part of the JavaScript run time that the methods depend on:
  \<open>nextId\<close> is the identity the next new object gets; \<open>pending\<close> are the invocations of
  \<open>handleHitTest\<close> suspended at their \<^verbatim>\<open>await\<close>, each with the frame it was called
  with; \<open>requestLog\<close> records every call of \<^verbatim>\<open>session.requestHitTestSource\<close>, by the
  session it was made on.
\<close>

record ARSpace =
  scene :: "nat list"
  model :: "Object3D option"
  placedModels :: "Object3D list"
  reticle :: Object3D
  hitTestSource :: "nat option"
  hitTestSourceRequested :: bool
  arSession :: "nat option"
  isARSupported :: bool
  isLoading :: bool
  modelType :: "ModelType option"
  ui :: UI
  nextId :: nat
  pending :: "XRFrame list"
  requestLog :: "nat list"

section \<open>The scene graph\<close>

text \<open>
  \<^verbatim>\<open>Object3D.remove\<close> splices the first occurrence of the child out of
  \<^verbatim>\<open>children\<close>; \<^verbatim>\<open>Object3D.add\<close> first detaches the child from its parent, then
  pushes it (the scene is the only parent in this program).
\<close>

definition scene_remove :: "nat \<Rightarrow> nat list \<Rightarrow> nat list" where
  "scene_remove r sc = remove1 r sc"

definition scene_add :: "nat \<Rightarrow> nat list \<Rightarrow> nat list" where
  "scene_add r sc = scene_remove r sc @ [r]"

section \<open>Placement: onSelect\<close>

text \<open>
  \<^verbatim>\<open>this.model.clone()\<close> is a new object with the fields of the prototype (three.js
  copies \<^verbatim>\<open>userData\<close> too); the pose and the two \<^verbatim>\<open>userData\<close> entries are then
  overwritten.
\<close>

definition clone :: "nat \<Rightarrow> Object3D \<Rightarrow> Object3D" where
  "clone fresh m = m\<lparr>oid := fresh\<rparr>"

definition onSelect :: "ARSpace \<Rightarrow> ARSpace" where
  "onSelect s =
     (if arSession s = None \<or> \<not> visible (reticle s) then s
      else case model s of
        None \<Rightarrow> s
      | Some m \<Rightarrow>
          let modelClone = (clone (nextId s) m)
                \<lparr>position := position (reticle s),
                 quaternion := quaternion (reticle s),
                 rotationSpeed := Some (1 / 100),
                 isPlaced := True\<rparr>
          in s\<lparr>scene := scene_add (oid modelClone) (scene s),
               placedModels := placedModels s @ [modelClone],
               nextId := Suc (nextId s)\<rparr>)"

section \<open>Session start and end\<close>

text \<open>
  The handlers of the renderer's \<^verbatim>\<open>sessionstart\<close> and \<^verbatim>\<open>sessionend\<close> events. The
  instruction text is that of the GLB variant, which names the model by \<open>modelType\<close>.
\<close>

definition onARSessionStart :: "ARSpace \<Rightarrow> ARSpace" where
  "onARSessionStart s =
     (let modelText = (if modelType s = Some glb then ''GLB model'' else ''polygonal shape'');
          u = (ui s)\<lparr>ar_active := True,
                     arButton_hidden := True,
                     stopArButton_hidden := False,
                     reticleElement_hidden := False,
                     instructionText :=
                       ''Point your device at a surface and tap to place the '' @ modelText\<rparr>
      in s\<lparr>ui := u,
           scene := (case model s of
                       None \<Rightarrow> scene s
                     | Some m \<Rightarrow> if oid m \<in> set (scene s)
                                then scene_remove (oid m) (scene s) else scene s)\<rparr>)"

definition onARSessionEnd :: "ARSpace \<Rightarrow> ARSpace" where
  "onARSessionEnd s =
     (let u = (ui s)\<lparr>ar_active := False,
                     surface_detected := False,
                     arButton_hidden := False,
                     stopArButton_hidden := True,
                     reticleElement_hidden := True,
                     instructionText :=
                       ''Click '' @ [CHR 0x22] @ ''Start AR'' @ [CHR 0x22]
                         @ '' to begin augmented reality experience''\<rparr>;
          cleaned = fold (\<lambda>m sc. scene_remove (oid m) sc) (placedModels s) (scene s)
      in s\<lparr>ui := u,
           placedModels := [],
           hitTestSource := None,
           hitTestSourceRequested := False,
           scene := (case model s of
                       None \<Rightarrow> cleaned
                     | Some m \<Rightarrow> if oid m \<notin> set cleaned
                                then scene_add (oid m) cleaned else cleaned)\<rparr>)"

definition showFallbackMessage :: "ARSpace \<Rightarrow> ARSpace" where
  "showFallbackMessage s =
     (let modelText = (if modelType s = Some glb then ''GLB model''
                       else ''polygonal icosahedron'')
      in s\<lparr>ui := (ui s)\<lparr>fallbackMessage_hidden := False,
                        instructionText :=
                          ''WebXR AR not available. Viewing '' @ modelText
                            @ '' in regular 3D mode. Use mouse/touch to rotate view.''\<rparr>\<rparr>)"

text \<open>
  \<^verbatim>\<open>startAR\<close>, from the outcome of \<^verbatim>\<open>requestSession\<close> and \<^verbatim>\<open>setSession\<close>: the
  session, or \<open>None\<close> when either rejects. The \<^verbatim>\<open>sessionstart\<close> event that
  \<^verbatim>\<open>setSession\<close> fires is an event of its own (see \<open>step\<close>). \<^verbatim>\<open>stopAR\<close> only asks
  the platform to end the session; the state changes when \<^verbatim>\<open>sessionend\<close> arrives.
\<close>

definition startAR :: "nat option \<Rightarrow> ARSpace \<Rightarrow> ARSpace" where
  "startAR outcome s =
     (if \<not> isARSupported s then showFallbackMessage s
      else case outcome of
        Some session \<Rightarrow> s\<lparr>arSession := Some session\<rparr>
      | None \<Rightarrow> s)"

section \<open>Hit testing: handleHitTest\<close>

text \<open>
  \<^verbatim>\<open>handleHitTest\<close> is an \<^verbatim>\<open>async\<close> method with one \<^verbatim>\<open>await\<close>, so it runs in up to
  two pieces. \<open>handleHitTest\<close> is the piece that runs inside \<open>render\<close>: when
  \<open>hitTestSourceRequested\<close> is false it calls \<^verbatim>\<open>session.requestHitTestSource\<close> and
  suspends; otherwise it goes on to the query at once. \<open>handleHitTest_resume\<close> is the
  piece that runs when the platform settles the request (\<open>Some source\<close>) or rejects it
  (\<open>None\<close>, which the \<^verbatim>\<open>catch\<close> logs). \<open>handleHitTest_query\<close> is the second
  \<^verbatim>\<open>if\<close> of the method, which both pieces end with. An exception inside an
  \<^verbatim>\<open>async\<close> method rejects its promise and does not reach the caller, so a throwing
  \<^verbatim>\<open>getHitTestResults\<close> ends the invocation with the state as it is, and so does
  \<^verbatim>\<open>setFromMatrixPosition\<close> on a \<open>Float32Array\<close>, after \<^verbatim>\<open>reticle.visible = true\<close>
  and before anything else is written.
\<close>

definition handleHitTest_query :: "XRFrame \<Rightarrow> ARSpace \<Rightarrow> ARSpace" where
  "handleHitTest_query frame s =
     (case hitTestSource s of
        None \<Rightarrow> s
      | Some source \<Rightarrow>
          (case getHitTestResults frame of
             None \<Rightarrow> s
           | Some [] \<Rightarrow>
               s\<lparr>reticle := (reticle s)\<lparr>visible := False\<rparr>,
                 ui := (ui s)\<lparr>surface_detected := False\<rparr>\<rparr>
           | Some (hit # _) \<Rightarrow>
               (case hit of
                  None \<Rightarrow> s
                | Some pose \<Rightarrow>
                    (let s1 = s\<lparr>reticle := (reticle s)\<lparr>visible := True\<rparr>\<rparr>
                     in case matrix pose of
                          Float32Array \<Rightarrow> s1
                        | Matrix4 p q \<Rightarrow>
                            s1\<lparr>reticle := (reticle s1)\<lparr>position := p, quaternion := q\<rparr>,
                               ui := (ui s1)\<lparr>surface_detected := True\<rparr>\<rparr>))))"

definition handleHitTest :: "XRFrame \<Rightarrow> ARSpace \<Rightarrow> ARSpace" where
  "handleHitTest frame s =
     (if \<not> hitTestSourceRequested s
      then s\<lparr>requestLog := requestLog s @ [frameSession frame],
             pending := pending s @ [frame]\<rparr>
      else handleHitTest_query frame s)"

definition handleHitTest_resume :: "XRFrame \<Rightarrow> nat option \<Rightarrow> ARSpace \<Rightarrow> ARSpace" where
  "handleHitTest_resume frame settled s =
     handleHitTest_query frame
       (case settled of
          Some source \<Rightarrow> s\<lparr>hitTestSource := Some source, hitTestSourceRequested := True\<rparr>
        | None \<Rightarrow> s)"

section \<open>The render loop\<close>

text \<open>
  \<open>rotY d q\<close> stands for the orientation that three.js gives an object of orientation
  \<open>q\<close> after \<^verbatim>\<open>rotation.y += d\<close>; it is a parameter. A \<^verbatim>\<open>userData.rotationSpeed\<close> is
  truthy when it is present and not zero.
\<close>

definition spin :: "(real \<Rightarrow> quat \<Rightarrow> quat) \<Rightarrow> Object3D \<Rightarrow> Object3D" where
  "spin rotY m =
     (case rotationSpeed m of
        None \<Rightarrow> m
      | Some v \<Rightarrow> if v \<noteq> 0 then m\<lparr>quaternion := rotY v (quaternion m)\<rparr> else m)"

definition spin_preview :: "(real \<Rightarrow> quat \<Rightarrow> quat) \<Rightarrow> Object3D \<Rightarrow> Object3D" where
  "spin_preview rotY m =
     (case rotationSpeed m of
        None \<Rightarrow> m\<lparr>quaternion := rotY (1 / 100) (quaternion m)\<rparr>
      | Some v \<Rightarrow> if v \<noteq> 0 then m\<lparr>quaternion := rotY v (quaternion m)\<rparr>
                  else m\<lparr>quaternion := rotY (1 / 100) (quaternion m)\<rparr>)"

text \<open>
  One call of \<open>render\<close>, with what \<^verbatim>\<open>renderer.xr.getFrame()\<close> returns (null outside
  an XR frame). \<open>handleHitTest\<close> is not awaited: \<open>render\<close> goes on as soon as it
  suspends or returns. The preview rotation is that of the GLB variant, which uses the
  model's own \<^verbatim>\<open>rotationSpeed\<close> when it has one; the robot variant always adds 0.01.
\<close>

definition render :: "(real \<Rightarrow> quat \<Rightarrow> quat) \<Rightarrow> XRFrame option \<Rightarrow> ARSpace \<Rightarrow> ARSpace" where
  "render rotY frame s =
     (let s1 = (case frame of
                  None \<Rightarrow> s
                | Some f \<Rightarrow> if arSession s \<noteq> None then handleHitTest f s else s);
          s2 = s1\<lparr>placedModels := map (spin rotY) (placedModels s1)\<rparr>
      in case model s2 of
           None \<Rightarrow> s2
         | Some m \<Rightarrow> if oid m \<in> set (scene s2) \<and> arSession s2 = None
                     then s2\<lparr>model := Some (spin_preview rotY m)\<rparr> else s2)"

section \<open>The event loop\<close>

text \<open>
  Everything that runs after \<open>init\<close> is a callback. \<open>Render\<close> is a tick of the
  animation loop; \<open>Settle i r\<close> is the platform settling the \<open>i\<close>-th suspended
  \<open>handleHitTest\<close> with \<open>r\<close>; \<open>Click\<close> is the canvas listener (which calls
  \<open>onSelect\<close> when \<open>arSession\<close> is set); \<open>SessionStart\<close> and \<open>SessionEnd\<close> are the
  renderer's events; \<open>StartAR\<close> is \<open>startAR\<close> running to its end.
\<close>

datatype event =
    Render "XRFrame option"
  | Settle nat "nat option"
  | Click
  | SessionStart
  | SessionEnd
  | StartAR "nat option"

fun step :: "(real \<Rightarrow> quat \<Rightarrow> quat) \<Rightarrow> event \<Rightarrow> ARSpace \<Rightarrow> ARSpace" where
  "step rotY (Render frame) s = render rotY frame s"
| "step rotY (Settle i settled) s =
     (if i < length (pending s)
      then handleHitTest_resume (pending s ! i) settled
             (s\<lparr>pending := take i (pending s) @ drop (Suc i) (pending s)\<rparr>)
      else s)"
| "step rotY Click s = (if arSession s \<noteq> None then onSelect s else s)"
| "step rotY SessionStart s = onARSessionStart s"
| "step rotY SessionEnd s = onARSessionEnd s"
| "step rotY (StartAR outcome) s = startAR outcome s"

definition exec :: "(real \<Rightarrow> quat \<Rightarrow> quat) \<Rightarrow> event list \<Rightarrow> ARSpace \<Rightarrow> ARSpace" where
  "exec rotY es s = fold (step rotY) es s"

section \<open>Start-up: the scene, the reticle and the model\<close>

text \<open>
  \<open>newObject3D\<close> is a three.js object as its constructor leaves it: visible, at the
  origin, not rotated, with empty \<^verbatim>\<open>userData\<close>.
\<close>

definition newObject3D :: "nat \<Rightarrow> Object3D" where
  "newObject3D fresh =
     \<lparr>oid = fresh, visible = True, position = (0, 0, 0), quaternion = (0, 0, 0, 1),
      rotationSpeed = None, isPlaced = False\<rparr>"

definition createReticle :: "nat \<Rightarrow> Object3D" where
  "createReticle fresh = (newObject3D fresh)\<lparr>visible := False\<rparr>"

text \<open>
  The state after the constructor and \<open>initThreeJS\<close> (GLB variant): the scene holds the
  two lights, the ground plane and the reticle, in that order. The state of the page's
  elements comes from the HTML, which is a parameter.
\<close>

definition initThreeJS :: "UI \<Rightarrow> ARSpace" where
  "initThreeJS page =
     \<lparr>scene = [0, 1, 2, 3], model = None, placedModels = [], reticle = createReticle 3,
      hitTestSource = None, hitTestSourceRequested = False, arSession = None,
      isARSupported = False, isLoading = False, modelType = None, ui = page,
      nextId = 4, pending = [], requestLog = []\<rparr>"

text \<open>
  \<open>loadModel\<close> of the GLB variant. \<^verbatim>\<open>new THREE.GLTFLoader()\<close> either throws, because
  the page has no \<^verbatim>\<open>THREE.GLTFLoader\<close> (the loader is a script of its own, not part
  of three.js): \<open>NoLoader\<close>; or gives a loader, whose \<^verbatim>\<open>load\<close> then either fails
  (\<open>Rejected\<close>) or gives a \<^verbatim>\<open>gltf\<close> whose \<^verbatim>\<open>scene\<close> is an object or undefined
  (\<open>Loaded\<close>). The loader is constructed before the \<^verbatim>\<open>try\<close>, so its exception
  leaves \<open>loadModel\<close>: the result of \<open>loadModel\<close> is an exception with the state at the
  point where it was thrown, or the state it returns with. \<open>loadModel_try\<close> is the body
  of the \<^verbatim>\<open>try\<close>, whose exceptions the \<^verbatim>\<open>catch\<close> handles.
\<close>

datatype load_outcome = Rejected | Loaded "Object3D option"

datatype GLTFLoader = NoLoader | Loader load_outcome

datatype exn = LoadError | TypeError

definition loadModel_try :: "load_outcome \<Rightarrow> ARSpace \<Rightarrow> (exn \<times> ARSpace) + ARSpace" where
  "loadModel_try outcome s =
     (case outcome of
        Rejected \<Rightarrow> Inl (LoadError, s)
      | Loaded None \<Rightarrow> Inl (TypeError, s\<lparr>modelType := Some glb, model := None\<rparr>)
      | Loaded (Some g) \<Rightarrow>
          Inr (s\<lparr>modelType := Some glb,
                 model := Some (g\<lparr>oid := nextId s, position := (0, 0, 0)\<rparr>),
                 nextId := Suc (nextId s)\<rparr>))"

definition createFallbackIcosahedron :: "ARSpace \<Rightarrow> ARSpace" where
  "createFallbackIcosahedron s =
     s\<lparr>modelType := Some icosahedron,
       model := Some ((newObject3D (nextId s))\<lparr>position := (0, 0, 0),
                                               rotationSpeed := Some (1 / 100)\<rparr>),
       nextId := Suc (nextId s)\<rparr>"

definition loadModel :: "GLTFLoader \<Rightarrow> ARSpace \<Rightarrow> (exn \<times> ARSpace) + ARSpace" where
  "loadModel loader s =
     (let s0 = s\<lparr>isLoading := True\<rparr>
      in case loader of
           NoLoader \<Rightarrow> Inl (TypeError, s0)
         | Loader outcome \<Rightarrow>
             let s1 = (case loadModel_try outcome s0 of
                         Inr t \<Rightarrow> t
                       | Inl (error, t) \<Rightarrow> createFallbackIcosahedron t);
                 s2 = (case model s1 of
                         None \<Rightarrow> s1
                       | Some m \<Rightarrow> s1\<lparr>scene := scene_add (oid m) (scene s1)\<rparr>)
             in Inr (s2\<lparr>isLoading := False\<rparr>))"

text \<open>
  \<open>loadModel\<close> of the robot variant: \<open>createProceduralModel\<close> builds a group, moves it
  to \<open>(0, -0.5, 0)\<close> and adds it to the scene.
\<close>

definition createProceduralModel :: "ARSpace \<Rightarrow> ARSpace" where
  "createProceduralModel s =
     (let robotGroup = (newObject3D (nextId s))\<lparr>position := (0, - (1 / 2), 0)\<rparr>
      in s\<lparr>model := Some robotGroup,
           scene := scene_add (oid robotGroup) (scene s),
           nextId := Suc (nextId s)\<rparr>)"

definition loadModel_robot :: "ARSpace \<Rightarrow> ARSpace" where
  "loadModel_robot s = (createProceduralModel (s\<lparr>isLoading := True\<rparr>))\<lparr>isLoading := False\<rparr>"

text \<open>
  \<open>checkARSupport\<close>, from the answer of \<^verbatim>\<open>navigator.xr.isSessionSupported\<close>: \<open>None\<close>
  when there is no \<^verbatim>\<open>navigator.xr\<close> or the call rejects. \<open>init\<close> is the start-up
  sequence; the state it returns is the one the callbacks start from. It awaits
  \<open>loadModel\<close> without a \<^verbatim>\<open>try\<close>: when \<open>loadModel\<close> throws, \<open>init\<close> stops there, and
  no listener is registered and no render loop started.
\<close>

definition checkARSupport :: "bool option \<Rightarrow> ARSpace \<Rightarrow> ARSpace" where
  "checkARSupport answer s =
     (case answer of
        None \<Rightarrow> s\<lparr>isARSupported := False\<rparr>
      | Some b \<Rightarrow> s\<lparr>isARSupported := b\<rparr>)"

definition init :: "UI \<Rightarrow> GLTFLoader \<Rightarrow> bool option \<Rightarrow> (exn \<times> ARSpace) + ARSpace" where
  "init page loader answer =
     (case loadModel loader (initThreeJS page) of
        Inl thrown \<Rightarrow> Inl thrown
      | Inr loaded \<Rightarrow>
          let s = checkARSupport answer loaded
          in Inr (if \<not> isARSupported s then showFallbackMessage s else s))"

section \<open>Well-formed states\<close>

text \<open>
  What start-up establishes and every callback keeps: the scene lists no object twice,
  there is a prototype model, its identity is older than \<open>nextId\<close>, and it is not one of
  the placed instances.
\<close>

definition wellformed :: "ARSpace \<Rightarrow> bool" where
  "wellformed s \<longleftrightarrow>
     distinct (scene s) \<and>
     (case model s of
        None \<Rightarrow> False
      | Some m \<Rightarrow> oid m < nextId s \<and> oid m \<notin> oid ` set (placedModels s))"

section \<open>Example runs\<close>

text \<open>
  A page, a rotation and a few frames to run the program on, with poses as WebXR gives
  them, and the states of a run: \<open>startup\<close> after start-up with a GLB that fails to
  load on a device with AR; \<open>s_started\<close> once session 7 runs; \<open>s_pending\<close> after its
  first frame, which asks for the hit-test source; \<open>s_ready\<close> once the platform has
  given source 5; \<open>s_visible\<close> after a frame that hits a surface; \<open>s_placed\<close> after
  a tap; \<open>s_failed\<close> when the platform refuses the request instead; \<open>s_nomodel\<close> is
  \<open>s_visible\<close> without a prototype.

  Session 7 can end in two places. \<open>s_over\<close> is \<open>s_visible\<close> after
  \<^verbatim>\<open>sessionend\<close>, and \<open>s_second\<close> the first frame of a second session, 8, after it.
  \<open>s_ended\<close> is \<open>s_pending\<close> after \<^verbatim>\<open>sessionend\<close>, with the request still pending;
  \<open>s_late\<close> is the state once the platform then gives source 5, and \<open>s_next\<close> the
  first frame of session 8 after that.
\<close>

definition page0 :: UI where
  "page0 = \<lparr>ar_active = False, surface_detected = False, arButton_hidden = False,
            stopArButton_hidden = True, reticleElement_hidden = True,
            fallbackMessage_hidden = True, instructionText = ''''\<rparr>"

definition rotY0 :: "real \<Rightarrow> quat \<Rightarrow> quat" where
  "rotY0 d q = q"

definition pose0 :: XRPose where
  "pose0 = \<lparr>matrix = Float32Array\<rparr>"

definition frame_stale :: XRFrame where
  "frame_stale = \<lparr>frameSession = 7, getHitTestResults = None\<rparr>"

definition frame_hit :: XRFrame where
  "frame_hit = \<lparr>frameSession = 7, getHitTestResults = Some [Some pose0]\<rparr>"

definition frame_nopose :: XRFrame where
  "frame_nopose = \<lparr>frameSession = 7, getHitTestResults = Some [None]\<rparr>"

definition frame8 :: XRFrame where
  "frame8 = \<lparr>frameSession = 8, getHitTestResults = None\<rparr>"

definition startup :: ARSpace where
  "startup = (case init page0 (Loader Rejected) (Some True) of
                Inr s \<Rightarrow> s
              | Inl (error, s) \<Rightarrow> s)"

definition s_started :: ARSpace where
  "s_started = exec rotY0 [SessionStart, StartAR (Some 7)] startup"

definition s_pending :: ARSpace where
  "s_pending = step rotY0 (Render (Some frame_stale)) s_started"

definition s_ready :: ARSpace where
  "s_ready = step rotY0 (Settle 0 (Some 5)) s_pending"

definition s_visible :: ARSpace where
  "s_visible = step rotY0 (Render (Some frame_hit)) s_ready"

definition s_placed :: ARSpace where
  "s_placed = step rotY0 Click s_visible"

definition s_failed :: ARSpace where
  "s_failed = step rotY0 (Settle 0 None) s_pending"

definition s_over :: ARSpace where
  "s_over = step rotY0 SessionEnd s_visible"

definition s_second :: ARSpace where
  "s_second = exec rotY0 [SessionStart, StartAR (Some 8), Render (Some frame8)] s_over"

definition s_ended :: ARSpace where
  "s_ended = step rotY0 SessionEnd s_pending"

definition s_late :: ARSpace where
  "s_late = step rotY0 (Settle 0 (Some 5)) s_ended"

definition s_next :: ARSpace where
  "s_next = exec rotY0 [SessionStart, StartAR (Some 8), Render (Some frame8)] s_late"

definition icosa :: Object3D where
  "icosa = \<lparr>oid = 4, visible = True, position = (0, 0, 0), quaternion = (0, 0, 0, 1),
            rotationSpeed = Some (1 / 100), isPlaced = False\<rparr>"

definition ui_ar :: UI where
  "ui_ar = \<lparr>ar_active = True, surface_detected = False, arButton_hidden = True,
            stopArButton_hidden = False, reticleElement_hidden = False,
            fallbackMessage_hidden = True,
            instructionText =
              ''Point your device at a surface and tap to place the polygonal shape''\<rparr>"

definition ui_idle :: UI where
  "ui_idle = \<lparr>ar_active = False, surface_detected = False, arButton_hidden = False,
              stopArButton_hidden = True, reticleElement_hidden = True,
              fallbackMessage_hidden = True,
              instructionText =
                ''Click '' @ [CHR 0x22] @ ''Start AR'' @ [CHR 0x22]
                  @ '' to begin augmented reality experience''\<rparr>"

definition s_nomodel :: ARSpace where
  "s_nomodel = s_visible\<lparr>model := None\<rparr>"

section \<open>Helper lemmas: the scene graph and well-formedness\<close>

lemma distinct_scene_remove: "distinct sc \<Longrightarrow> distinct (scene_remove r sc)"
  by (simp add: scene_remove_def)

lemma distinct_scene_add: "distinct sc \<Longrightarrow> distinct (scene_add r sc)"
  by (simp add: scene_add_def scene_remove_def)

lemma set_scene_remove: "distinct sc \<Longrightarrow> set (scene_remove r sc) = set sc - {r}"
  by (simp add: scene_remove_def)

lemma distinct_fold_remove:
  "distinct sc \<Longrightarrow> distinct (fold (\<lambda>m sc. scene_remove (oid m) sc) ps sc)"
  by (induction ps arbitrary: sc) (simp_all add: distinct_scene_remove)

lemma set_fold_remove:
  "distinct sc \<Longrightarrow> set (fold (\<lambda>m sc. scene_remove (oid m) sc) ps sc) = set sc - oid ` set ps"
  by (induction ps arbitrary: sc) (auto simp: distinct_scene_remove set_scene_remove)

lemma wellformed_onSelect: "wellformed s \<Longrightarrow> wellformed (onSelect s)"
  by (auto simp: wellformed_def onSelect_def clone_def Let_def distinct_scene_add split: option.splits)

lemma wellformed_onARSessionStart: "wellformed s \<Longrightarrow> wellformed (onARSessionStart s)"
  by (auto simp: wellformed_def onARSessionStart_def Let_def distinct_scene_remove split: option.splits)

lemma wellformed_onARSessionEnd: "wellformed s \<Longrightarrow> wellformed (onARSessionEnd s)"
  by (auto simp: wellformed_def onARSessionEnd_def Let_def distinct_scene_add distinct_fold_remove split: option.splits)

lemma query_fields:
  "scene (handleHitTest_query f s) = scene s"
  "model (handleHitTest_query f s) = model s"
  "placedModels (handleHitTest_query f s) = placedModels s"
  "nextId (handleHitTest_query f s) = nextId s"
  "arSession (handleHitTest_query f s) = arSession s"
  "hitTestSource (handleHitTest_query f s) = hitTestSource s"
  "hitTestSourceRequested (handleHitTest_query f s) = hitTestSourceRequested s"
  "requestLog (handleHitTest_query f s) = requestLog s"
  "pending (handleHitTest_query f s) = pending s"
  by (simp_all add: handleHitTest_query_def Let_def
      split: option.splits list.splits TransformMatrix.splits)

lemma wellformed_query: "wellformed s \<Longrightarrow> wellformed (handleHitTest_query f s)"
  by (auto simp: wellformed_def query_fields split: option.splits)

lemma wellformed_handleHitTest: "wellformed s \<Longrightarrow> wellformed (handleHitTest f s)"
  by (auto simp: handleHitTest_def wellformed_query) (auto simp: wellformed_def split: option.splits)

lemma wellformed_resume: "wellformed s \<Longrightarrow> wellformed (handleHitTest_resume f r s)"
  unfolding handleHitTest_resume_def
  by (rule wellformed_query) (auto simp: wellformed_def split: option.splits)

lemma oid_spin: "oid (spin rotY m) = oid m"
  by (simp add: spin_def split: option.splits)

lemma oid_spin_preview: "oid (spin_preview rotY m) = oid m"
  by (simp add: spin_preview_def split: option.splits)

lemma wellformed_render: "wellformed s \<Longrightarrow> wellformed (render rotY fr s)"
proof -
  assume a: "wellformed s"
  define s1 where "s1 = (case fr of None \<Rightarrow> s | Some f \<Rightarrow> if arSession s \<noteq> None then handleHitTest f s else s)"
  have i1: "wellformed s1" using a by (auto simp: s1_def wellformed_handleHitTest split: option.splits)
  have img: "oid ` set (map (spin rotY) ps) = oid ` set ps" for ps
    by (induction ps) (simp_all add: oid_spin)
  define s2 where "s2 = s1\<lparr>placedModels := map (spin rotY) (placedModels s1)\<rparr>"
  have i2: "wellformed s2" using i1 img[of "placedModels s1"] by (auto simp: s2_def wellformed_def split: option.splits)
  have "render rotY fr s = (case model s2 of None \<Rightarrow> s2
         | Some m \<Rightarrow> if oid m \<in> set (scene s2) \<and> arSession s2 = None
                     then s2\<lparr>model := Some (spin_preview rotY m)\<rparr> else s2)"
    unfolding render_def Let_def s2_def s1_def by (rule refl)
  then show ?thesis using i2
    by (auto simp: wellformed_def oid_spin_preview split: option.splits)
qed

lemma wellformed_startAR: "wellformed s \<Longrightarrow> wellformed (startAR r s)"
  by (auto simp: wellformed_def startAR_def showFallbackMessage_def Let_def split: option.splits)

lemma wellformed_step: "wellformed s \<Longrightarrow> wellformed (step rotY e s)"
proof (cases e)
  case (Settle i r)
  assume "wellformed s"
  then have "wellformed (s\<lparr>pending := take i (pending s) @ drop (Suc i) (pending s)\<rparr>)"
    by (auto simp: wellformed_def split: option.splits)
  then show ?thesis using \<open>wellformed s\<close> Settle by (simp add: wellformed_resume)
qed (simp_all add: wellformed_render wellformed_onSelect wellformed_onARSessionStart wellformed_onARSessionEnd wellformed_startAR)

lemma wellformed_exec: "wellformed s \<Longrightarrow> wellformed (exec rotY es s)"
  unfolding exec_def by (induction es arbitrary: s) (simp_all add: wellformed_step)

lemma wellformed_init: "init page loader ans = Inr s \<Longrightarrow> wellformed s"
  by (cases ans)
     (auto simp: init_def checkARSupport_def showFallbackMessage_def loadModel_def
       loadModel_try_def createFallbackIcosahedron_def initThreeJS_def wellformed_def Let_def
       scene_add_def scene_remove_def newObject3D_def
       split: option.splits if_splits GLTFLoader.splits load_outcome.splits)

lemma count_list_distinct: "distinct xs \<Longrightarrow> x \<in> set xs \<Longrightarrow> count_list xs x = 1"
  by (induction xs) auto

lemma onARSessionEnd_idem: "onARSessionEnd (onARSessionEnd s) = onARSessionEnd s"
  by (cases "model s")
     (auto simp: onARSessionEnd_def Let_def scene_add_def scene_remove_def)

section \<open>Helper lemmas: the reticle stays hidden\<close>

lemma step_keeps_hidden:
  assumes "\<not> visible (reticle s)" "hitTestSource (step rotY e s) = None"
  shows "\<not> visible (reticle (step rotY e s))"
proof (cases e)
  case (Render fr)
  then show ?thesis using assms
    by (auto simp: render_def handleHitTest_def handleHitTest_query_def Let_def
        split: option.splits if_splits list.splits TransformMatrix.splits)
next
  case (Settle i r)
  then show ?thesis using assms
    by (auto simp: handleHitTest_resume_def handleHitTest_query_def Let_def
        split: option.splits if_splits list.splits TransformMatrix.splits)
next
  case Click
  then show ?thesis using assms by (auto simp: onSelect_def Let_def split: option.splits)
next
  case SessionStart
  then show ?thesis using assms by (simp add: onARSessionStart_def Let_def)
next
  case SessionEnd
  then show ?thesis using assms by (simp add: onARSessionEnd_def Let_def)
next
  case (StartAR r)
  then show ?thesis using assms
    by (auto simp: startAR_def showFallbackMessage_def Let_def split: option.splits)
qed

lemma exec_Cons: "exec rotY (e # es) s = exec rotY es (step rotY e s)"
  by (simp add: exec_def)

lemma exec_Nil: "exec rotY [] s = s"
  by (simp add: exec_def)

lemma exec_keeps_hidden:
  assumes "\<not> visible (reticle s)"
    and "\<forall>k\<le>length es. hitTestSource (exec rotY (take k es) s) = None"
  shows "\<not> visible (reticle (exec rotY es s))"
  using assms
proof (induction es arbitrary: s)
  case Nil
  then show ?case by (simp add: exec_Nil)
next
  case (Cons e es)
  from Cons.prems(2) have "hitTestSource (exec rotY (take (Suc 0) (e # es)) s) = None"
    by (metis Suc_leI length_Cons zero_less_Suc)
  then have src: "hitTestSource (step rotY e s) = None"
    by (simp add: exec_Cons exec_Nil)
  have hid: "\<not> visible (reticle (step rotY e s))"
    using step_keeps_hidden [OF Cons.prems(1) src] .
  have "\<forall>k\<le>length es. hitTestSource (exec rotY (take k es) (step rotY e s)) = None"
  proof (intro allI impI)
    fix k assume "k \<le> length es"
    then have "Suc k \<le> length (e # es)" by simp
    with Cons.prems(2) have "hitTestSource (exec rotY (take (Suc k) (e # es)) s) = None"
      by blast
    then show "hitTestSource (exec rotY (take k es) (step rotY e s)) = None"
      by (simp add: exec_Cons)
  qed
  from Cons.IH [OF hid this] show ?case by (simp add: exec_Cons)
qed

lemma init_hidden: "init page loader ans = Inr s \<Longrightarrow> \<not> visible (reticle s)"
  by (cases ans)
     (auto simp: init_def checkARSupport_def showFallbackMessage_def loadModel_def
       loadModel_try_def createFallbackIcosahedron_def initThreeJS_def createReticle_def
       newObject3D_def Let_def
       split: option.splits if_splits GLTFLoader.splits load_outcome.splits)

text \<open>
  The reticle is created invisible, and along every run of callbacks from start-up during
  which \<open>hitTestSource\<close> has stayed null since creation it is invisible at every point.
\<close>

lemma reticle_hidden_since_startup:
  assumes "init page loader ans = Inr s0"
    and "\<forall>k\<le>length es. hitTestSource (exec rotY (take k es) s0) = None"
  shows "\<forall>k\<le>length es. \<not> visible (reticle (exec rotY (take k es) s0))"
proof (intro allI impI)
  fix k assume k: "k \<le> length es"
  have "\<forall>j\<le>length (take k es). hitTestSource (exec rotY (take j (take k es)) s0) = None"
  proof (intro allI impI)
    fix j assume "j \<le> length (take k es)"
    then have "j \<le> k" "j \<le> length es" using k by simp_all
    then show "hitTestSource (exec rotY (take j (take k es)) s0) = None"
      using assms(2) by (simp add: min_absorb1)
  qed
  from exec_keeps_hidden [OF init_hidden [OF assms(1)] this]
  show "\<not> visible (reticle (exec rotY (take k es) s0))" .
qed

section \<open>Helper lemmas: the example runs\<close>

lemmas sample_defs = page0_def rotY0_def pose0_def frame_stale_def frame_hit_def
  frame_nopose_def frame8_def icosa_def ui_ar_def ui_idle_def

lemmas run_defs = exec_def render_def handleHitTest_def handleHitTest_query_def
  handleHitTest_resume_def onARSessionStart_def onARSessionEnd_def startAR_def onSelect_def
  clone_def spin_def spin_preview_def scene_add_def scene_remove_def Let_def

lemmas init_defs = init_def checkARSupport_def loadModel_def loadModel_try_def
  createFallbackIcosahedron_def initThreeJS_def createReticle_def newObject3D_def
  showFallbackMessage_def scene_add_def scene_remove_def Let_def

lemma init_startup: "init page0 (Loader Rejected) (Some True) = Inr startup"
  by (simp add: startup_def init_defs)

lemma startup_eq:
  "startup =
     \<lparr>scene = [0, 1, 2, 3, 4], model = Some icosa, placedModels = [],
      reticle = createReticle 3, hitTestSource = None, hitTestSourceRequested = False,
      arSession = None, isARSupported = True, isLoading = False,
      modelType = Some icosahedron, ui = page0, nextId = 5, pending = [],
      requestLog = []\<rparr>"
  by (simp add: startup_def init_defs icosa_def)

lemma s_started_eq:
  "s_started =
     \<lparr>scene = [0, 1, 2, 3], model = Some icosa, placedModels = [],
      reticle = createReticle 3, hitTestSource = None, hitTestSourceRequested = False,
      arSession = Some 7, isARSupported = True, isLoading = False,
      modelType = Some icosahedron, ui = ui_ar, nextId = 5, pending = [],
      requestLog = []\<rparr>"
  by (simp add: s_started_def startup_eq run_defs sample_defs)

lemma s_pending_eq:
  "s_pending =
     \<lparr>scene = [0, 1, 2, 3], model = Some icosa, placedModels = [],
      reticle = createReticle 3, hitTestSource = None, hitTestSourceRequested = False,
      arSession = Some 7, isARSupported = True, isLoading = False,
      modelType = Some icosahedron, ui = ui_ar, nextId = 5, pending = [frame_stale],
      requestLog = [7]\<rparr>"
  by (simp add: s_pending_def s_started_eq run_defs sample_defs)

lemma s_ready_eq:
  "s_ready =
     \<lparr>scene = [0, 1, 2, 3], model = Some icosa, placedModels = [],
      reticle = createReticle 3, hitTestSource = Some 5, hitTestSourceRequested = True,
      arSession = Some 7, isARSupported = True, isLoading = False,
      modelType = Some icosahedron, ui = ui_ar, nextId = 5, pending = [],
      requestLog = [7]\<rparr>"
  by (simp add: s_ready_def s_pending_eq run_defs sample_defs)

text \<open>
  The pose of \<open>frame_hit\<close> has WebXR's matrix, so the frame makes the reticle visible
  and leaves it where it was, and \<^verbatim>\<open>surface-detected\<close> is not set.
\<close>

lemma s_visible_eq:
  "s_visible =
     \<lparr>scene = [0, 1, 2, 3], model = Some icosa, placedModels = [],
      reticle = (createReticle 3)\<lparr>visible := True\<rparr>,
      hitTestSource = Some 5, hitTestSourceRequested = True,
      arSession = Some 7, isARSupported = True, isLoading = False,
      modelType = Some icosahedron, ui = ui_ar, nextId = 5,
      pending = [], requestLog = [7]\<rparr>"
  by (simp add: s_visible_def s_ready_eq run_defs sample_defs createReticle_def newObject3D_def)

lemma s_placed_eq:
  "s_placed =
     \<lparr>scene = [0, 1, 2, 3, 5], model = Some icosa,
      placedModels = [icosa\<lparr>oid := 5, isPlaced := True\<rparr>],
      reticle = (createReticle 3)\<lparr>visible := True\<rparr>,
      hitTestSource = Some 5, hitTestSourceRequested = True,
      arSession = Some 7, isARSupported = True, isLoading = False,
      modelType = Some icosahedron, ui = ui_ar, nextId = 6,
      pending = [], requestLog = [7]\<rparr>"
  by (simp add: s_placed_def s_visible_eq run_defs sample_defs createReticle_def newObject3D_def)

lemma s_failed_eq:
  "s_failed =
     \<lparr>scene = [0, 1, 2, 3], model = Some icosa, placedModels = [],
      reticle = createReticle 3, hitTestSource = None, hitTestSourceRequested = False,
      arSession = Some 7, isARSupported = True, isLoading = False,
      modelType = Some icosahedron, ui = ui_ar, nextId = 5, pending = [],
      requestLog = [7]\<rparr>"
  by (simp add: s_failed_def s_pending_eq run_defs sample_defs)

lemma s_over_eq:
  "s_over =
     \<lparr>scene = [0, 1, 2, 3, 4], model = Some icosa, placedModels = [],
      reticle = (createReticle 3)\<lparr>visible := True\<rparr>,
      hitTestSource = None, hitTestSourceRequested = False,
      arSession = Some 7, isARSupported = True, isLoading = False,
      modelType = Some icosahedron, ui = ui_idle, nextId = 5,
      pending = [], requestLog = [7]\<rparr>"
  by (simp add: s_over_def s_visible_eq run_defs sample_defs)

lemma s_second_eq:
  "s_second =
     \<lparr>scene = [0, 1, 2, 3], model = Some icosa, placedModels = [],
      reticle = (createReticle 3)\<lparr>visible := True\<rparr>,
      hitTestSource = None, hitTestSourceRequested = False,
      arSession = Some 8, isARSupported = True, isLoading = False,
      modelType = Some icosahedron, ui = ui_ar, nextId = 5,
      pending = [frame8], requestLog = [7, 8]\<rparr>"
  by (simp add: s_second_def s_over_eq run_defs sample_defs)

lemma s_ended_eq:
  "s_ended =
     \<lparr>scene = [0, 1, 2, 3, 4], model = Some icosa, placedModels = [],
      reticle = createReticle 3, hitTestSource = None, hitTestSourceRequested = False,
      arSession = Some 7, isARSupported = True, isLoading = False,
      modelType = Some icosahedron, ui = ui_idle, nextId = 5, pending = [frame_stale],
      requestLog = [7]\<rparr>"
  by (simp add: s_ended_def s_pending_eq run_defs sample_defs)

lemma s_late_eq:
  "s_late =
     \<lparr>scene = [0, 1, 2, 3, 4], model = Some icosa, placedModels = [],
      reticle = createReticle 3, hitTestSource = Some 5, hitTestSourceRequested = True,
      arSession = Some 7, isARSupported = True, isLoading = False,
      modelType = Some icosahedron, ui = ui_idle, nextId = 5, pending = [],
      requestLog = [7]\<rparr>"
  by (simp add: s_late_def s_ended_eq run_defs sample_defs)

lemma s_next_eq:
  "s_next =
     \<lparr>scene = [0, 1, 2, 3], model = Some icosa, placedModels = [],
      reticle = createReticle 3, hitTestSource = Some 5, hitTestSourceRequested = True,
      arSession = Some 8, isARSupported = True, isLoading = False,
      modelType = Some icosahedron, ui = ui_ar, nextId = 5, pending = [],
      requestLog = [7]\<rparr>"
  by (simp add: s_next_def s_late_eq run_defs sample_defs)

lemma wellformed_s_placed: "wellformed s_placed"
  unfolding s_placed_def s_visible_def s_ready_def s_pending_def s_started_def
  by (intro wellformed_step wellformed_exec wellformed_init [OF init_startup])

section \<open>Helper lemmas: what one call of each piece does\<close>

text \<open>
  A frame that finds \<open>hitTestSourceRequested\<close> false asks the platform for a source
  and leaves the flag false; only a request that succeeds sets it.
\<close>

lemma handleHitTest_unrequested:
  assumes "\<not> hitTestSourceRequested s"
  shows "requestLog (handleHitTest frame s) = requestLog s @ [frameSession frame]"
    and "pending (handleHitTest frame s) = pending s @ [frame]"
    and "\<not> hitTestSourceRequested (handleHitTest frame s)"
  using assms by (simp_all add: handleHitTest_def)

lemma handleHitTest_resume_flag:
  "hitTestSourceRequested (handleHitTest_resume frame None s) = hitTestSourceRequested s"
  "hitTestSourceRequested (handleHitTest_resume frame (Some source) s)"
  "hitTestSource (handleHitTest_resume frame None s) = hitTestSource s"
  "hitTestSource (handleHitTest_resume frame (Some source) s) = Some source"
  by (simp_all add: handleHitTest_resume_def query_fields)

text \<open>
  The outcomes of the query. A first result with a pose makes the reticle visible; the
  pose reaches the reticle only when its matrix has \<^verbatim>\<open>elements\<close>, and with WebXR's
  \<open>Float32Array\<close> the reticle stays where it was.
\<close>

lemma handleHitTest_query_hit:
  assumes "hitTestSource s = Some source"
    and "getHitTestResults frame = Some (Some pose # hits)"
  shows "visible (reticle (handleHitTest_query frame s))"
  using assms by (simp add: handleHitTest_query_def Let_def split: TransformMatrix.splits)

lemma handleHitTest_query_hit_Matrix4:
  assumes "hitTestSource s = Some source"
    and "getHitTestResults frame = Some (Some pose # hits)"
    and "matrix pose = Matrix4 p q"
  shows "position (reticle (handleHitTest_query frame s)) = p"
    and "quaternion (reticle (handleHitTest_query frame s)) = q"
    and "surface_detected (ui (handleHitTest_query frame s))"
  using assms by (simp_all add: handleHitTest_query_def Let_def)

lemma handleHitTest_query_hit_Float32Array:
  assumes "hitTestSource s = Some source"
    and "getHitTestResults frame = Some (Some pose # hits)"
    and "matrix pose = Float32Array"
  shows "handleHitTest_query frame s = s\<lparr>reticle := (reticle s)\<lparr>visible := True\<rparr>\<rparr>"
  using assms by (simp add: handleHitTest_query_def Let_def)

lemma handleHitTest_query_empty:
  assumes "hitTestSource s = Some source" and "getHitTestResults frame = Some []"
  shows "\<not> visible (reticle (handleHitTest_query frame s))"
  using assms by (simp add: handleHitTest_query_def)

lemma handleHitTest_query_nopose:
  assumes "getHitTestResults frame = Some (None # hits)"
  shows "handleHitTest_query frame s = s"
  using assms by (simp add: handleHitTest_query_def split: option.splits)

text \<open>
  \<open>onARSessionEnd\<close> writes neither \<open>arSession\<close> nor the reticle: the session handle and
  the visibility of the reticle outlive the session.
\<close>

lemma onARSessionEnd_keeps:
  "arSession (onARSessionEnd s) = arSession s"
  "reticle (onARSessionEnd s) = reticle s"
  "pending (onARSessionEnd s) = pending s"
  by (simp_all add: onARSessionEnd_def Let_def)

text \<open>The guard of \<open>onSelect\<close>: nothing happens while \<open>arSession\<close> is null or the
  reticle is invisible.\<close>

lemma onSelect_guard:
  assumes "arSession s = None \<or> \<not> visible (reticle s)"
  shows "onSelect s = s"
  using assms by (simp add: onSelect_def)

text \<open>
  With a loader, \<open>loadModel\<close> returns, and with a model: what the body of the
  \<^verbatim>\<open>try\<close> throws, the \<^verbatim>\<open>catch\<close> answers with the icosahedron. The robot variant
  builds its model without loading anything.
\<close>

lemma loadModel_with_loader:
  "\<exists>t m. loadModel (Loader outcome) s = Inr t \<and> model t = Some m"
  by (cases outcome)
     (auto simp: loadModel_def loadModel_try_def createFallbackIcosahedron_def Let_def
       split: option.splits)

lemma loadModel_fallback:
  assumes "loadModel_try outcome (s\<lparr>isLoading := True\<rparr>) = Inl (error, t)"
  shows "\<exists>u. loadModel (Loader outcome) s = Inr u
           \<and> model u = model (createFallbackIcosahedron t)
           \<and> modelType u = Some icosahedron"
  using assms
  by (cases outcome)
     (auto simp: loadModel_def loadModel_try_def createFallbackIcosahedron_def Let_def
       split: option.splits)

lemma loadModel_robot_model: "\<exists>m. model (loadModel_robot s) = Some m"
  by (simp add: loadModel_robot_def createProceduralModel_def Let_def)

section \<open>The claims\<close>

subsection \<open>C1: the hit-test source is requested once per session\<close>

text \<open>
  C1 says that \<^verbatim>\<open>requestHitTestSource\<close> is called at most once in a session, however
  many frames run before the request resolves. The code sets \<open>hitTestSourceRequested\<close>
  only after the \<^verbatim>\<open>await\<close>, so it does not hold: in \<open>s_pending\<close> the request of the
  first frame of session 7 is still pending, and the second frame of the same session
  calls \<^verbatim>\<open>requestHitTestSource\<close> again.
\<close>

theorem C1_second_frame_requests_again:
  "arSession s_pending = Some 7
   \<and> requestLog s_pending = [7]
   \<and> pending s_pending = [frame_stale]
   \<and> requestLog (step rotY0 (Render (Some frame_stale)) s_pending) = [7, 7]
   \<and> pending (step rotY0 (Render (Some frame_stale)) s_pending) = [frame_stale, frame_stale]"
  by (simp add: s_pending_eq run_defs sample_defs)

theorem C1_second_frame_requests_again_witness:
  "count_list (requestLog (step rotY0 (Render (Some frame_stale)) s_pending)) 7 = 2"
  using C1_second_frame_requests_again by simp

subsection \<open>C2: a request that settles after the session has ended\<close>

text \<open>
  C2 says that a request settling after \<open>onARSessionEnd\<close> is discarded: it sets neither
  \<open>hitTestSource\<close> nor \<open>hitTestSourceRequested\<close>, and the reset made at the end of the
  session stands. The continuation of \<open>handleHitTest\<close> writes both fields without
  looking at the session, so it does not hold. In \<open>s_ended\<close> session 7 has ended with
  its request pending and both fields are reset; in \<open>s_late\<close> the source that arrives
  afterwards has been stored and the flag set; and in \<open>s_next\<close> the first frame of
  session 8 has asked for no source of its own and holds the source of session 7.
\<close>

theorem C2_late_source_overwrites_reset:
  "hitTestSource s_ended = None
   \<and> hitTestSourceRequested s_ended = False
   \<and> pending s_ended = [frame_stale]
   \<and> hitTestSource s_late = Some 5
   \<and> hitTestSourceRequested s_late = True
   \<and> arSession s_next = Some 8
   \<and> frameSession frame8 = 8
   \<and> requestLog s_next = [7]
   \<and> hitTestSource s_next = Some 5"
  by (simp add: s_ended_eq s_late_eq s_next_eq frame8_def)

theorem C2_late_source_overwrites_reset_witness:
  "hitTestSource s_late \<noteq> hitTestSource s_ended
   \<and> hitTestSourceRequested s_late \<noteq> hitTestSourceRequested s_ended"
  using C2_late_source_overwrites_reset by simp

subsection \<open>C3: a tap on a visible reticle places one instance\<close>

text \<open>
  C3: when \<open>onSelect\<close> runs with \<open>arSession\<close> set, the reticle visible and a prototype
  model, \<open>placedModels\<close> grows by exactly one element, at its end, and the position and
  the quaternion of the new instance are those of the reticle.
\<close>

theorem C3_onSelect_places_one:
  assumes "arSession s \<noteq> None" and "visible (reticle s)" and "model s = Some m"
  shows "\<exists>c. placedModels (onSelect s) = placedModels s @ [c]
           \<and> length (placedModels (onSelect s)) = length (placedModels s) + 1
           \<and> position c = position (reticle s)
           \<and> quaternion c = quaternion (reticle s)"
  using assms by (simp add: onSelect_def clone_def Let_def)

theorem C3_onSelect_places_one_witness:
  "arSession s_visible = Some 7
   \<and> visible (reticle s_visible)
   \<and> model s_visible = Some icosa
   \<and> (\<exists>c. placedModels (onSelect s_visible) = placedModels s_visible @ [c]
          \<and> length (placedModels (onSelect s_visible)) = length (placedModels s_visible) + 1
          \<and> position c = position (reticle s_visible)
          \<and> quaternion c = quaternion (reticle s_visible))"
proof -
  have a: "arSession s_visible = Some 7" by (simp add: s_visible_eq)
  then have a': "arSession s_visible \<noteq> None" by simp
  have v: "visible (reticle s_visible)" by (simp add: s_visible_eq)
  have m: "model s_visible = Some icosa" by (simp add: s_visible_eq)
  show ?thesis using a v m C3_onSelect_places_one [OF a' v m] by blast
qed

subsection \<open>C4: a tap without a session or without a visible reticle\<close>

text \<open>
  C4 says that \<open>onSelect\<close> leaves \<open>placedModels\<close> and the scene as they are when the
  reticle is invisible or no AR session is active. The guard of \<open>onSelect\<close> tests
  \<open>arSession\<close> and \<open>reticle.visible\<close>, and \<open>onARSessionEnd\<close> resets neither, so it
  does not hold once a session has ended. In \<open>s_over\<close> session 7 has ended (the page is
  back in its idle state, the placed instances are gone, the prototype is back in the
  scene), yet \<open>arSession\<close> is still set and the reticle still visible; the tap that
  follows places an instance in the preview scene.
\<close>

theorem C4_tap_after_session_end_places:
  "ar_active (ui s_over) = False
   \<and> arSession s_over = Some 7
   \<and> visible (reticle s_over) = True
   \<and> placedModels s_over = []
   \<and> scene s_over = [0, 1, 2, 3, 4]
   \<and> map oid (placedModels (step rotY0 Click s_over)) = [5]
   \<and> scene (step rotY0 Click s_over) = [0, 1, 2, 3, 4, 5]"
  by (simp add: s_over_eq run_defs sample_defs createReticle_def newObject3D_def)

theorem C4_tap_after_session_end_places_witness:
  "placedModels (step rotY0 Click s_over) \<noteq> placedModels s_over
   \<and> scene (step rotY0 Click s_over) \<noteq> scene s_over"
proof -
  from C4_tap_after_session_end_places
  have p: "map oid (placedModels (step rotY0 Click s_over)) = [5]"
    and q: "placedModels s_over = []"
    and r: "scene (step rotY0 Click s_over) = [0, 1, 2, 3, 4, 5]"
    and t: "scene s_over = [0, 1, 2, 3, 4]"
    by blast+
  have a: "placedModels (step rotY0 Click s_over) \<noteq> placedModels s_over"
    using p q by (metis list.map_disc_iff list.distinct(1))
  have "[0, 1, 2, 3, 4, 5] \<noteq> [0, 1, 2, 3, 4::nat]" by simp
  then have b: "scene (step rotY0 Click s_over) \<noteq> scene s_over" unfolding r t .
  from a b show ?thesis by (rule conjI)
qed

subsection \<open>C5: the reticle after a hit-test query\<close>

text \<open>
  C5 says that after a query with a source the reticle is visible exactly when the first
  result has a pose, and is hidden otherwise. The code hides it only when there are no
  results; a first result whose \<^verbatim>\<open>getPose\<close> is null leaves the reticle as it was. In
  \<open>s_visible\<close> the source is there and the reticle is visible; the next frame's only
  result has no pose, and the reticle is still visible after it.
\<close>

theorem C5_null_pose_keeps_reticle_visible:
  "hitTestSource s_visible = Some 5
   \<and> hitTestSourceRequested s_visible
   \<and> getHitTestResults frame_nopose = Some [None]
   \<and> visible (reticle (handleHitTest frame_nopose s_visible))
   \<and> visible (reticle (step rotY0 (Render (Some frame_nopose)) s_visible))"
  by (simp add: s_visible_eq run_defs sample_defs)

theorem C5_null_pose_keeps_reticle_visible_witness:
  "visible (reticle (step rotY0 (Render (Some frame_nopose)) s_visible)) = True"
  using C5_null_pose_keeps_reticle_visible by simp

subsection \<open>C6: cleaning up at the end of a session\<close>

text \<open>
  C6: in a well-formed state, after \<open>onARSessionEnd\<close> the list \<open>placedModels\<close> is
  empty, no instance that was placed is in the scene, the prototype model is in the
  scene exactly once, and running \<open>onARSessionEnd\<close> again changes nothing.
\<close>

theorem C6_onARSessionEnd_cleanup:
  assumes "wellformed s"
  shows "placedModels (onARSessionEnd s) = []
       \<and> (\<forall>p\<in>set (placedModels s). oid p \<notin> set (scene (onARSessionEnd s)))
       \<and> (\<exists>m. model (onARSessionEnd s) = Some m
              \<and> count_list (scene (onARSessionEnd s)) (oid m) = 1)
       \<and> onARSessionEnd (onARSessionEnd s) = onARSessionEnd s"
proof -
  from assms obtain m where m: "model s = Some m" "oid m \<notin> oid ` set (placedModels s)"
    and d: "distinct (scene s)"
    by (auto simp: wellformed_def split: option.splits)
  define cleaned where "cleaned = fold (\<lambda>m sc. scene_remove (oid m) sc) (placedModels s) (scene s)"
  have dc: "distinct cleaned" unfolding cleaned_def by (rule distinct_fold_remove [OF d])
  have sc: "set cleaned = set (scene s) - oid ` set (placedModels s)"
    unfolding cleaned_def by (rule set_fold_remove [OF d])
  have scene_eq: "scene (onARSessionEnd s) =
      (if oid m \<notin> set cleaned then scene_add (oid m) cleaned else cleaned)"
    by (simp add: onARSessionEnd_def Let_def m cleaned_def)
  have d': "distinct (scene (onARSessionEnd s))"
    by (simp add: scene_eq dc distinct_scene_add)
  have mem: "oid m \<in> set (scene (onARSessionEnd s))"
    by (simp add: scene_eq scene_add_def)
  have set': "set (scene (onARSessionEnd s)) \<subseteq> insert (oid m) (set cleaned)"
    by (auto simp: scene_eq scene_add_def scene_remove_def dest: notin_set_remove1)
  have a: "placedModels (onARSessionEnd s) = []"
    by (simp add: onARSessionEnd_def Let_def)
  have b: "\<forall>p\<in>set (placedModels s). oid p \<notin> set (scene (onARSessionEnd s))"
  proof
    fix p assume "p \<in> set (placedModels s)"
    then have i: "oid p \<in> oid ` set (placedModels s)" by (rule imageI)
    then have "oid p \<noteq> oid m" using m(2) by auto
    moreover have "oid p \<notin> set cleaned" using i sc by simp
    ultimately show "oid p \<notin> set (scene (onARSessionEnd s))" using set' by auto
  qed
  have c: "model (onARSessionEnd s) = Some m \<and> count_list (scene (onARSessionEnd s)) (oid m) = 1"
    using d' mem by (simp add: onARSessionEnd_def Let_def m count_list_distinct)
  show ?thesis using a b c onARSessionEnd_idem by blast
qed

theorem C6_onARSessionEnd_cleanup_witness:
  "wellformed s_placed
   \<and> map oid (placedModels s_placed) = [5]
   \<and> scene s_placed = [0, 1, 2, 3, 5]
   \<and> placedModels (onARSessionEnd s_placed) = []
   \<and> 5 \<notin> set (scene (onARSessionEnd s_placed))
   \<and> model (onARSessionEnd s_placed) = Some icosa
   \<and> count_list (scene (onARSessionEnd s_placed)) 4 = 1
   \<and> onARSessionEnd (onARSessionEnd s_placed) = onARSessionEnd s_placed"
proof -
  note t = C6_onARSessionEnd_cleanup [OF wellformed_s_placed]
  have p: "map oid (placedModels s_placed) = [5]" by (simp add: s_placed_eq)
  have s: "scene s_placed = [0, 1, 2, 3, 5]" by (simp add: s_placed_eq)
  have m: "model (onARSessionEnd s_placed) = Some icosa"
    by (simp add: onARSessionEnd_def Let_def s_placed_eq)
  have o: "oid icosa = 4" by (simp add: icosa_def)
  from p have "\<exists>q\<in>set (placedModels s_placed). oid q = 5"
    by (cases "placedModels s_placed") auto
  with t have five: "5 \<notin> set (scene (onARSessionEnd s_placed))" by auto
  from t m o have one: "count_list (scene (onARSessionEnd s_placed)) 4 = 1" by auto
  show ?thesis using wellformed_s_placed p s m five one t by blast
qed

subsection \<open>C7: a request that fails\<close>

text \<open>
  C7 says that after a failed request no further request is made in the session and the
  reticle never becomes visible in it. The code leaves \<open>hitTestSourceRequested\<close> false
  when the request fails, so the next frame asks again: in \<open>s_failed\<close> the request of
  session 7 has been rejected; the next frame of the session makes a second request, and
  when that one succeeds a frame with a hit shows the reticle.
\<close>

theorem C7_failed_request_is_retried:
  "arSession s_failed = Some 7
   \<and> requestLog s_failed = [7]
   \<and> pending s_failed = []
   \<and> hitTestSource s_failed = None
   \<and> \<not> hitTestSourceRequested s_failed
   \<and> requestLog (step rotY0 (Render (Some frame_stale)) s_failed) = [7, 7]
   \<and> visible (reticle (exec rotY0
        [Render (Some frame_stale), Settle 0 (Some 5), Render (Some frame_hit)] s_failed))"
  by (simp add: s_failed_eq run_defs sample_defs)

theorem C7_failed_request_is_retried_witness:
  "length (requestLog (step rotY0 (Render (Some frame_stale)) s_failed)) = 2"
  using C7_failed_request_is_retried by simp

subsection \<open>C8: no source, no reticle\<close>

text \<open>
  C8 says that through every sequence of frames during which \<open>hitTestSource\<close> remains
  null the reticle is invisible. That holds from start-up until the first source
  arrives (\<open>reticle_hidden_since_startup\<close>), but \<open>onARSessionEnd\<close> sets
  \<open>hitTestSource\<close> to null and leaves \<open>reticle.visible\<close> as it is, so it does not hold
  after a session that showed the reticle. In \<open>s_over\<close> session 7 has ended with the
  reticle visible; in \<open>s_second\<close> the first frame of session 8 has run, and after the
  frame that follows the request of session 8 is still unanswered: in all three states
  \<open>hitTestSource\<close> is null and the reticle is visible.
\<close>

theorem C8_reticle_visible_without_source:
  "hitTestSource s_over = None
   \<and> visible (reticle s_over) = True
   \<and> arSession s_second = Some 8
   \<and> hitTestSource s_second = None
   \<and> visible (reticle s_second) = True
   \<and> hitTestSource (step rotY0 (Render (Some frame8)) s_second) = None
   \<and> visible (reticle (step rotY0 (Render (Some frame8)) s_second)) = True"
  by (simp add: s_over_eq s_second_eq run_defs sample_defs createReticle_def)

theorem C8_reticle_visible_without_source_witness:
  "hitTestSource s_second = None \<and> visible (reticle s_second)"
  using C8_reticle_visible_without_source by simp

subsection \<open>C9: loading the model\<close>

text \<open>
  C9 says that \<open>loadModel\<close> never throws and always ends with a model, the fallback
  standing in for any failure of the load. The \<^verbatim>\<open>try\<close> covers the load and what
  follows it (\<open>loadModel_with_loader\<close>, \<open>loadModel_fallback\<close>), but
  \<^verbatim>\<open>new THREE.GLTFLoader()\<close> stands before it, so it does not hold on a page where the
  loader script is missing: \<open>loadModel\<close> throws a \<^verbatim>\<open>TypeError\<close>, the model is still
  null, \<open>isLoading\<close> is still true, and \<open>init\<close> stops.
\<close>

theorem C9_loadModel_throws_without_loader:
  "loadModel NoLoader (initThreeJS page0)
     = Inl (TypeError, (initThreeJS page0)\<lparr>isLoading := True\<rparr>)
   \<and> model ((initThreeJS page0)\<lparr>isLoading := True\<rparr>) = None
   \<and> init page0 NoLoader (Some True)
     = Inl (TypeError, (initThreeJS page0)\<lparr>isLoading := True\<rparr>)"
  by (simp add: loadModel_def init_def initThreeJS_def Let_def)

theorem C9_loadModel_throws_without_loader_witness:
  "\<not> (\<exists>t. loadModel NoLoader (initThreeJS page0) = Inr t)"
  using C9_loadModel_throws_without_loader by simp

subsection \<open>C10: a tap without a prototype model\<close>

text \<open>
  C10: when the prototype model is null, \<open>onSelect\<close> changes nothing, also with a
  session and a visible reticle.
\<close>

theorem C10_onSelect_without_model:
  assumes "model s = None"
  shows "onSelect s = s"
  using assms by (simp add: onSelect_def)

theorem C10_onSelect_without_model_witness:
  "model s_nomodel = None
   \<and> arSession s_nomodel = Some 7
   \<and> visible (reticle s_nomodel)
   \<and> onSelect s_nomodel = s_nomodel"
proof -
  have m: "model s_nomodel = None" by (simp add: s_nomodel_def)
  have a: "arSession s_nomodel = Some 7" by (simp add: s_nomodel_def s_visible_eq)
  have v: "visible (reticle s_nomodel)" by (simp add: s_nomodel_def s_visible_eq)
  show ?thesis using m a v C10_onSelect_without_model [OF m] by simp
qed


end
